theory Spec2Isabelle
  imports Complex_Main
begin

section \<open>Python values shared by the notebooks\<close>

text \<open>
  The exceptions the notebook cells can raise or catch. \<open>KeyError\<close> carries the missing
  key, as Python's does.
\<close>

datatype py_error = FileNotFoundError | KeyError string | AttributeError | IndexError

text \<open>\<^verbatim>\<open>d[k]\<close> on a dict: the value, or \<open>KeyError\<close> when the key is missing.\<close>

definition getitem :: "(string \<rightharpoonup> 'v) \<Rightarrow> string \<Rightarrow> py_error + 'v" where
  "getitem d k = (case d k of None \<Rightarrow> Inl (KeyError k) | Some v \<Rightarrow> Inr v)"

section \<open>The configuration documents\<close>

text \<open>
  A YAML mapping is kept as its \<open>key: value\<close> lines in document order. Loading it into a
  dict, as PyYAML does, inserts the pairs one after the other, so a key written twice keeps
  its last value.
\<close>

definition yaml_load :: "(string \<times> 'v) list \<Rightarrow> (string \<rightharpoonup> 'v)" where
  "yaml_load kvs = fold (\<lambda>kv d. d(fst kv \<mapsto> snd kv)) kvs Map.empty"

text \<open>The \<open>data\<close> mapping of the first document of \<open>src/unnamed/part_002\<close> (lines 6 to 13).\<close>

definition part_002_doc1_data :: "(string \<times> string) list" where
  "part_002_doc1_data =
    [(''admin'', ''databases/admin.json''),
     (''custom'', ''databases/custom.sqlite''),
     (''geonames'', ''databases/geonames.sqlite''),
     (''georef_data'', ''databases/georef_data.sqlite''),
     (''georef_job'', ''job.sqlite''),
     (''natural_earth'', ''databases/natural_earth.sqlite''),
     (''natural_earth'', ''databases/thesaurus.yml'')]"

text \<open>The \<open>data\<close> mapping of its second document (lines 227 to 234).\<close>

definition part_002_doc2_data :: "(string \<times> string) list" where
  "part_002_doc2_data =
    [(''admin'', ''databases/admin.json''),
     (''custom'', ''databases/custom.sqlite''),
     (''geonames'', ''databases/geonames.sqlite''),
     (''geohelper'', ''databases/geohelper.sqlite''),
     (''georef_job'', ''job.sqlite''),
     (''natural_earth'', ''databases/natural_earth.sqlite''),
     (''thesaurus'', ''databases/thesaurus.yml'')]"

text \<open>The \<open>data\<close> mapping of \<open>src/nmnh_ms_tools/_files/config/.nmtrc\<close> (lines 7 to 18).\<close>

definition nmtrc_data :: "(string \<times> string) list" where
  "nmtrc_data =
    [(''admin'', ''~/data/nmnh_ms_tools/geo/admin.sqlite''),
     (''custom'', ''~/data/nmnh_ms_tools/geo/custom.sqlite''),
     (''geonames'', ''~/data/nmnh_ms_tools/geo/geonames.sqlite''),
     (''geohelper'', ''~/data/nmnh_ms_tools/geo/geohelper.sqlite''),
     (''georef_job'', ''job.sqlite''),
     (''gvp'', ''~/data/nmnh_ms_tools/geo/GVP_Volcano_List*.xlsx''),
     (''natural_earth'', ''~/data/nmnh_ms_tools/geo/natural_earth.sqlite''),
     (''thesaurus'', ''~/data/nmnh_ms_tools/geo/thesaurus.yml''),
     (''taxa_tree'', ''~/data/nmnh_ms_tools/taxa/geotree.json''),
     (''name_index'', ''~/data/nmnh_ms_tools/taxa/name_index.json''),
     (''stem_index'', ''~/data/nmnh_ms_tools/taxa/stem_index.json'')]"

text \<open>
  \<open>CONFIG\<close> as the notebooks read it: a dict of sections, of which they use \<open>data\<close>, a
  dict from a store's name to the path of its file.
\<close>

type_synonym config = "string \<rightharpoonup> (string \<rightharpoonup> string)"

definition CONFIG_of :: "(string \<times> string) list \<Rightarrow> config" where
  "CONFIG_of data_lines = [''data'' \<mapsto> yaml_load data_lines]"

text \<open>\<^verbatim>\<open>CONFIG["data"][name]\<close>\<close>

definition CONFIG_data :: "config \<Rightarrow> string \<Rightarrow> py_error + string" where
  "CONFIG_data CONFIG name =
     (case getitem CONFIG ''data'' of Inl e \<Rightarrow> Inl e | Inr d \<Rightarrow> getitem d name)"

section \<open>The database bootstrap notebook (\<open>src/unnamed/part_000\<close>)\<close>

text \<open>
  The functions the cells call live in \<open>nmnh_ms_tools.databases\<close>, outside the files at
  hand. A call is recorded in the order it is made; what it does to the file system is a
  parameter \<open>eff\<close> of the cells.
\<close>

datatype poolclass = DefaultPool | NullPool

datatype call =
    init_geonames_db poolclass
  | GeoNamesFeatures_from_csv string
  | init_admin_db poolclass
  | AdminFeatures_from_csv string
  | init_natural_earth_db string poolclass
  | init_helper_db poolclass
  | fill_ocean_table
  | fill_natural_earth_combined_table
  | fill_alternative_polygons_table
  | init_custom_db poolclass
  | CustomFeatures_from_csv string
  | init_geojob_db string

record world =
  files :: "string set"
  calls :: "call list"

definition run_call :: "(call \<Rightarrow> string set \<Rightarrow> string set) \<Rightarrow> world \<Rightarrow> call \<Rightarrow> world" where
  "run_call eff w c = \<lparr>files = eff c (files w), calls = calls w @ [c]\<rparr>"

definition run_calls :: "(call \<Rightarrow> string set \<Rightarrow> string set) \<Rightarrow> call list \<Rightarrow> world \<Rightarrow> world" where
  "run_calls eff cs w = foldl (run_call eff) w cs"

text \<open>
  \<^verbatim>\<open>open(path)\<close>: raises \<open>FileNotFoundError\<close> when there is no such file. The
  other ways \<open>open\<close> can fail (a directory, a file that may not be read) are left out:
  \<open>files\<close> holds the paths that open.
\<close>

definition py_open :: "world \<Rightarrow> string \<Rightarrow> py_error + unit" where
  "py_open w path = (if path \<in> files w then Inr () else Inl FileNotFoundError)"

text \<open>\<^verbatim>\<open>open(CONFIG["data"][name])\<close>: the lookup is evaluated first and may raise \<open>KeyError\<close>.\<close>

definition open_CONFIG_data :: "config \<Rightarrow> string \<Rightarrow> world \<Rightarrow> py_error + unit" where
  "open_CONFIG_data CONFIG name w =
     (case CONFIG_data CONFIG name of Inl e \<Rightarrow> Inl e | Inr path \<Rightarrow> py_open w path)"

text \<open>
  \<^verbatim>\<open>try: body  except FileNotFoundError: handler  else: orelse\<close>. Only
  \<open>FileNotFoundError\<close> is caught; any other exception leaves the cell.
\<close>

definition try_except_FileNotFoundError ::
  "py_error + unit \<Rightarrow> world \<Rightarrow> world \<Rightarrow> py_error + world" where
  "try_except_FileNotFoundError body handler orelse =
     (case body of
        Inr _ \<Rightarrow> Inr orelse
      | Inl FileNotFoundError \<Rightarrow> Inr handler
      | Inl e \<Rightarrow> Inl e)"

text \<open>
  \<^verbatim>\<open>
  try:
      open(CONFIG["data"]["geonames"])
  except FileNotFoundError:
      init_geonames_db(poolclass=NullPool)
      GeoNamesFeatures().from_csv(r"data/sources/allCountries.txt")
  \<close>
\<close>

definition geonames_cell ::
  "(call \<Rightarrow> string set \<Rightarrow> string set) \<Rightarrow> config \<Rightarrow> world \<Rightarrow> py_error + world" where
  "geonames_cell eff CONFIG w =
     try_except_FileNotFoundError (open_CONFIG_data CONFIG ''geonames'' w)
       (run_calls eff
          [init_geonames_db NullPool,
           GeoNamesFeatures_from_csv ''data/sources/allCountries.txt''] w)
       w"

text \<open>
  \<^verbatim>\<open>
  try:
      open(CONFIG["data"]["admin"])
  except FileNotFoundError:
      init_admin_db(poolclass=NullPool)
      AdminFeatures().from_csv(r"data/sources/allCountries.txt")
  else:
      init_admin_db()
  \<close>
\<close>

definition admin_cell ::
  "(call \<Rightarrow> string set \<Rightarrow> string set) \<Rightarrow> config \<Rightarrow> world \<Rightarrow> py_error + world" where
  "admin_cell eff CONFIG w =
     try_except_FileNotFoundError (open_CONFIG_data CONFIG ''admin'' w)
       (run_calls eff
          [init_admin_db NullPool,
           AdminFeatures_from_csv ''data/sources/allCountries.txt''] w)
       (run_calls eff [init_admin_db DefaultPool] w)"

text \<open>
  \<^verbatim>\<open>
  try:
      open(CONFIG["data"]["geohelper"])
  except FileNotFoundError:
      init_natural_earth_db("data/sources/natural_earth_vector.sqlite", poolclass=NullPool)
      init_helper_db(poolclass=NullPool)
      fill_ocean_table()
      fill_natural_earth_combined_table()
      fill_alternative_polygons_table()
  \<close>
\<close>

definition geohelper_cell ::
  "(call \<Rightarrow> string set \<Rightarrow> string set) \<Rightarrow> config \<Rightarrow> world \<Rightarrow> py_error + world" where
  "geohelper_cell eff CONFIG w =
     try_except_FileNotFoundError (open_CONFIG_data CONFIG ''geohelper'' w)
       (run_calls eff
          [init_natural_earth_db ''data/sources/natural_earth_vector.sqlite'' NullPool,
           init_helper_db NullPool,
           fill_ocean_table,
           fill_natural_earth_combined_table,
           fill_alternative_polygons_table] w)
       w"

text \<open>
  \<^verbatim>\<open>
  try:
      open(CONFIG["data"]["custom"])
      raise FileNotFoundError
  except FileNotFoundError:
      init_custom_db(poolclass=NullPool)
      custom = CustomFeatures()
      for path in Path("data/sources/custom").glob("*.csv"):
          custom.from_csv(path)
  \<close>
  The body is \<open>open\<close> followed by the \<open>raise\<close>: when \<open>open\<close> returns, the body raises
  \<open>FileNotFoundError\<close> itself. \<open>csvs\<close> is what the glob yields.
\<close>

definition custom_cell ::
  "(call \<Rightarrow> string set \<Rightarrow> string set) \<Rightarrow> string list \<Rightarrow> config \<Rightarrow> world \<Rightarrow> py_error + world" where
  "custom_cell eff csvs CONFIG w =
     try_except_FileNotFoundError
       (case open_CONFIG_data CONFIG ''custom'' w of
          Inl e \<Rightarrow> Inl e
        | Inr _ \<Rightarrow> Inl FileNotFoundError)
       (run_calls eff (init_custom_db NullPool # map CustomFeatures_from_csv csvs) w)
       w"

text \<open>
  Running the notebook from top to bottom: the cells in their order, the first exception
  that leaves a cell stopping the run.
\<close>

definition refresh_data ::
  "(call \<Rightarrow> string set \<Rightarrow> string set) \<Rightarrow> string list \<Rightarrow> config \<Rightarrow> world \<Rightarrow> py_error + world" where
  "refresh_data eff csvs CONFIG w =
     (case geonames_cell eff CONFIG w of Inl e \<Rightarrow> Inl e | Inr w1 \<Rightarrow>
     (case admin_cell eff CONFIG w1 of Inl e \<Rightarrow> Inl e | Inr w2 \<Rightarrow>
     (case geohelper_cell eff CONFIG w2 of Inl e \<Rightarrow> Inl e | Inr w3 \<Rightarrow>
      custom_cell eff csvs CONFIG w3)))"

section \<open>The georeferencer notebook (\<open>src/examples/georeferencer/georeferencer.ipynb\<close>)\<close>

subsection \<open>The set-up cell\<close>

text \<open>
  The pipe classes the notebook names. Their constructors take no argument, so a pipe is
  given by its class. \<open>MatchOffshore\<close> appears only in a line that is commented out.
\<close>

datatype pipe =
    MatchManual
  | MatchPLSS
  | MatchBetween
  | MatchBorder
  | MatchOffshore
  | MatchDirection
  | MatchCustom
  | MatchGeoNames

text \<open>
  \<^verbatim>\<open>
  pipes = [
      MatchManual(),     # captures manually georeferenced places
      MatchPLSS(),       # section/township/range
      MatchBetween(),    # for example, between A and B
      MatchBorder(),     # for example, border of A and B
      #MatchOffshore(),   # for example, offshore from A (broken)
      MatchDirection(),  # for example, 1 km N of A
      MatchCustom(),     # matches custom places
      MatchGeoNames(),   # matches GeoNames places
  ]
  tests = None
  \<close>
\<close>

definition pipes :: "pipe list" where
  "pipes =
    [MatchManual, MatchPLSS, MatchBetween, MatchBorder, MatchDirection, MatchCustom,
     MatchGeoNames]"

definition tests :: "unit option" where
  "tests = None"

subsection \<open>The georeferencer and its settings\<close>

text \<open>
  A value of a result dict: \<open>None\<close>, a string, a number, or a \<open>Site\<close> object. The class
  \<open>Site\<close> is outside the files at hand, so sites are a type parameter.
\<close>

datatype 's py_value = PyNone | PyStr string | PyFloat rat | PySite 's

type_synonym 's result = "string \<rightharpoonup> 's py_value"

text \<open>
  The \<open>Georeferencer\<close> object as the notebook uses it: the arguments of its constructor
  (records, pipes, tests, skip and limit; no cache is among them), the attributes the
  notebook assigns, and \<open>evaluated\<close>, the dict of results that \<open>geo.georeference()\<close>
  fills, kept as its items in insertion order.
\<close>

record ('r, 's) Georeferencer =
  records :: "'r list"
  geo_pipes :: "pipe list"
  geo_tests :: "unit option"
  skip :: nat
  limit :: "nat option"
  id_key :: string
  allow_sparse :: bool
  allow_invalid_coords :: bool
  coord_type :: string
  place_type :: string
  require_coords :: bool
  include_failed :: bool
  evaluated :: "(string \<times> 's result) list"

text \<open>
  \<^verbatim>\<open>
  geo = Georeferencer([s.to_dict() for s in sites],
                      pipes=pipes, tests=tests, skip=0, limit=200)
  geo.id_key = "location_id"
  geo.allow_sparse = True
  geo.allow_invalid_coords = False
  geo.coord_type = "any"
  geo.place_type = "any"
  geo.require_coords = False
  geo.include_failed = True
  \<close>
\<close>

definition make_geo :: "'r list \<Rightarrow> ('r, 's) Georeferencer" where
  "make_geo sites =
    \<lparr>records = sites, geo_pipes = pipes, geo_tests = tests, skip = 0, limit = Some 200,
     id_key = ''location_id'', allow_sparse = True, allow_invalid_coords = False,
     coord_type = ''any'', place_type = ''any'', require_coords = False,
     include_failed = True, evaluated = []\<rparr>"

section \<open>The hierarchy table of the shipped configuration\<close>


section \<open>The resolution engine\<close>

subsection \<open>Dispatch of a record through the pipe chain\<close>

text \<open>
  Modelled from the spec: what a Pipe's \<open>attempt(record)\<close> answers. The pipe classes are
  in \<open>nmnh_ms_tools.tools.georeferencer.pipes\<close>, outside the files at hand. Spec 4.3:
  "Each Pipe exposes attempt(record) -> MatchResult | no-match" and "A Pipe reports a
  normal no-match (record falls through to the next Pipe) distinctly from a hard failure
  (malformed input it cannot even attempt - also falls through, but is logged)".
\<close>

datatype 'm attempt = is_Match: Match (the_match: 'm) | NoMatch | HardFailure

text \<open>
  Modelled from the spec: what the Orchestrator keeps of one record's trip through the
  chain: the pipes it tried, in order; the pipes whose hard failure it logged; and the
  MatchResult, which is the winning pipe's answer together with the pipe its citation names
  (spec 3: a MatchResult is "identifying which Pipe produced it").
\<close>

record 'm dispatched =
  tried :: "pipe list"
  logged :: "pipe list"
  matched :: "(pipe \<times> 'm) option"

text \<open>
  Modelled from the spec: the Orchestrator's dispatch of one record (class
  \<open>Georeferencer\<close> of \<open>nmnh_ms_tools.tools.georeferencer\<close>, outside the files at hand; the
  notebook only constructs it and calls \<open>geo.georeference()\<close>). Spec 4.3: the pipes are
  "tried in this fixed order (first success wins, no further pipes run for that record)";
  spec 4.5: "PENDING -> (TRYING pipe1 ... pipen) -> MATCHED | EXHAUSTED". The answers of
  the pipes are the parameter \<open>attempt\<close>.
\<close>

fun dispatch :: "(pipe \<Rightarrow> 'r \<Rightarrow> 'm attempt) \<Rightarrow> pipe list \<Rightarrow> 'r \<Rightarrow> 'm dispatched" where
  "dispatch attempt [] r = \<lparr>tried = [], logged = [], matched = None\<rparr>"
| "dispatch attempt (p # ps) r =
     (case attempt p r of
        Match m \<Rightarrow> \<lparr>tried = [p], logged = [], matched = Some (p, m)\<rparr>
      | NoMatch \<Rightarrow>
          (let d = dispatch attempt ps r in d\<lparr>tried := p # tried d\<rparr>)
      | HardFailure \<Rightarrow>
          (let d = dispatch attempt ps r
           in d\<lparr>tried := p # tried d, logged := p # logged d\<rparr>))"

text \<open>
  Modelled from the spec: the Orchestrator dispatches a record of the batch through the
  chain it was given at construction (spec 2: it "dispatches each record through the pipe
  chain"; the method is in \<open>nmnh_ms_tools.tools.georeferencer\<close>, outside the files at
  hand).
\<close>

definition georeference_one ::
  "(pipe \<Rightarrow> 'r \<Rightarrow> 'm attempt) \<Rightarrow> ('r, 's) Georeferencer \<Rightarrow> 'r \<Rightarrow> 'm dispatched" where
  "georeference_one attempt geo r = dispatch attempt (geo_pipes geo) r"

subsection \<open>Narrowing candidates by the hierarchy fields\<close>











section \<open>Example data\<close>








text \<open>
  A record for the dispatch: the Direction and GeoNames pipes would both match it, the
  PLSS pipe cannot even attempt it.
\<close>

definition example_attempt :: "pipe \<Rightarrow> string \<Rightarrow> string attempt" where
  "example_attempt p r =
     (if p = MatchPLSS then HardFailure
      else if p = MatchDirection then Match ''5 km N of Springfield (GeoNames 100)''
      else if p = MatchGeoNames then Match ''Springfield (GeoNames 100)''
      else NoMatch)"

section \<open>Properties of the bootstrap notebook\<close>

lemma try_except_FileNotFoundError_simps:
  "try_except_FileNotFoundError (Inr u) h el = Inr el"
  "try_except_FileNotFoundError (Inl FileNotFoundError) h el = Inr h"
  "try_except_FileNotFoundError (Inl (KeyError k)) h el = Inl (KeyError k)"
  by (simp_all add: try_except_FileNotFoundError_def)

lemma open_CONFIG_data_found:
  "CONFIG_data CONFIG name = Inr p \<Longrightarrow>
   open_CONFIG_data CONFIG name w = (if p \<in> files w then Inr () else Inl FileNotFoundError)"
  by (simp add: open_CONFIG_data_def py_open_def)

lemma open_CONFIG_data_missing:
  "CONFIG_data CONFIG name = Inl e \<Longrightarrow> open_CONFIG_data CONFIG name w = Inl e"
  by (simp add: open_CONFIG_data_def)

lemma geonames_cell_found:
  "CONFIG_data CONFIG ''geonames'' = Inr p \<Longrightarrow>
   geonames_cell eff CONFIG w =
     Inr (if p \<in> files w then w
          else run_calls eff
            [init_geonames_db NullPool,
             GeoNamesFeatures_from_csv ''data/sources/allCountries.txt''] w)"
  by (simp add: geonames_cell_def open_CONFIG_data_found try_except_FileNotFoundError_simps)

lemma admin_cell_found:
  "CONFIG_data CONFIG ''admin'' = Inr p \<Longrightarrow>
   admin_cell eff CONFIG w =
     Inr (if p \<in> files w then run_calls eff [init_admin_db DefaultPool] w
          else run_calls eff
            [init_admin_db NullPool,
             AdminFeatures_from_csv ''data/sources/allCountries.txt''] w)"
  by (simp add: admin_cell_def open_CONFIG_data_found try_except_FileNotFoundError_simps)

lemma geohelper_cell_found:
  "CONFIG_data CONFIG ''geohelper'' = Inr p \<Longrightarrow>
   geohelper_cell eff CONFIG w =
     Inr (if p \<in> files w then w
          else run_calls eff
            [init_natural_earth_db ''data/sources/natural_earth_vector.sqlite'' NullPool,
             init_helper_db NullPool, fill_ocean_table,
             fill_natural_earth_combined_table, fill_alternative_polygons_table] w)"
  by (simp add: geohelper_cell_def open_CONFIG_data_found try_except_FileNotFoundError_simps)

lemma custom_cell_found:
  "CONFIG_data CONFIG ''custom'' = Inr p \<Longrightarrow>
   custom_cell eff csvs CONFIG w =
     Inr (run_calls eff (init_custom_db NullPool # map CustomFeatures_from_csv csvs) w)"
  by (simp add: custom_cell_def open_CONFIG_data_found try_except_FileNotFoundError_simps)

lemma geohelper_cell_KeyError:
  "CONFIG_data CONFIG ''geohelper'' = Inl (KeyError k) \<Longrightarrow>
   geohelper_cell eff CONFIG w = Inl (KeyError k)"
  by (simp add: geohelper_cell_def open_CONFIG_data_missing try_except_FileNotFoundError_simps)

lemma nmtrc_paths:
  "CONFIG_data (CONFIG_of nmtrc_data) ''custom'' = Inr ''~/data/nmnh_ms_tools/geo/custom.sqlite''"
  "CONFIG_data (CONFIG_of nmtrc_data) ''geonames'' = Inr ''~/data/nmnh_ms_tools/geo/geonames.sqlite''"
  "CONFIG_data (CONFIG_of nmtrc_data) ''admin'' = Inr ''~/data/nmnh_ms_tools/geo/admin.sqlite''"
  "CONFIG_data (CONFIG_of nmtrc_data) ''geohelper'' = Inr ''~/data/nmnh_ms_tools/geo/geohelper.sqlite''"
  by (simp_all add: CONFIG_data_def CONFIG_of_def getitem_def yaml_load_def nmtrc_data_def)

lemma part_002_doc1_paths:
  "CONFIG_data (CONFIG_of part_002_doc1_data) ''geonames'' = Inr ''databases/geonames.sqlite''"
  "CONFIG_data (CONFIG_of part_002_doc1_data) ''admin'' = Inr ''databases/admin.json''"
  "CONFIG_data (CONFIG_of part_002_doc1_data) ''geohelper'' = Inl (KeyError ''geohelper'')"
  by (simp_all add: CONFIG_data_def CONFIG_of_def getitem_def yaml_load_def part_002_doc1_data_def)

text \<open>
  C9. Whenever \<open>CONFIG["data"]\<close> names the four stores, the custom-locality cell calls
  \<open>init_custom_db\<close> and imports every CSV file again whether or not the custom database
  file exists, because its \<open>try\<close> body raises \<open>FileNotFoundError\<close> itself once \<open>open\<close>
  has returned. The GeoNames, admin and helper cells rebuild (initialise with
  \<open>NullPool\<close> and import or fill) only when their file is missing; with the file there the
  GeoNames and helper cells do nothing and the admin cell only calls \<open>init_admin_db()\<close>.
\<close>

theorem custom_cell_rebuilds_on_every_run:
  assumes "CONFIG_data CONFIG ''custom'' = Inr pc"
      and "CONFIG_data CONFIG ''geonames'' = Inr pg"
      and "CONFIG_data CONFIG ''admin'' = Inr pa"
      and "CONFIG_data CONFIG ''geohelper'' = Inr ph"
  shows "custom_cell eff csvs CONFIG w =
           Inr (run_calls eff (init_custom_db NullPool # map CustomFeatures_from_csv csvs) w)
       \<and> geonames_cell eff CONFIG w =
           Inr (if pg \<in> files w then w
                else run_calls eff
                  [init_geonames_db NullPool,
                   GeoNamesFeatures_from_csv ''data/sources/allCountries.txt''] w)
       \<and> admin_cell eff CONFIG w =
           Inr (if pa \<in> files w then run_calls eff [init_admin_db DefaultPool] w
                else run_calls eff
                  [init_admin_db NullPool,
                   AdminFeatures_from_csv ''data/sources/allCountries.txt''] w)
       \<and> geohelper_cell eff CONFIG w =
           Inr (if ph \<in> files w then w
                else run_calls eff
                  [init_natural_earth_db ''data/sources/natural_earth_vector.sqlite'' NullPool,
                   init_helper_db NullPool, fill_ocean_table,
                   fill_natural_earth_combined_table, fill_alternative_polygons_table] w)"
  using assms
  by (simp add: custom_cell_found geonames_cell_found admin_cell_found geohelper_cell_found)

text \<open>
  The shipped \<open>.nmtrc\<close>, with all four database files already there and two CSV files in
  the custom folder: the custom cell still initialises and imports, the GeoNames and helper
  cells leave the world as it is, the admin cell only opens its database.
\<close>

theorem custom_cell_rebuilds_on_every_run_witness:
  "calls (projr (custom_cell (\<lambda>c fs. fs)
       [''data/sources/custom/aapg-provinces.csv'', ''data/sources/custom/gvp-volcanoes.csv'']
       (CONFIG_of nmtrc_data)
       \<lparr>files = {''~/data/nmnh_ms_tools/geo/custom.sqlite'',
                 ''~/data/nmnh_ms_tools/geo/geonames.sqlite'',
                 ''~/data/nmnh_ms_tools/geo/admin.sqlite'',
                 ''~/data/nmnh_ms_tools/geo/geohelper.sqlite''}, calls = []\<rparr>))
     = [init_custom_db NullPool,
        CustomFeatures_from_csv ''data/sources/custom/aapg-provinces.csv'',
        CustomFeatures_from_csv ''data/sources/custom/gvp-volcanoes.csv'']
   \<and> calls (projr (geonames_cell (\<lambda>c fs. fs) (CONFIG_of nmtrc_data)
       \<lparr>files = {''~/data/nmnh_ms_tools/geo/custom.sqlite'',
                 ''~/data/nmnh_ms_tools/geo/geonames.sqlite'',
                 ''~/data/nmnh_ms_tools/geo/admin.sqlite'',
                 ''~/data/nmnh_ms_tools/geo/geohelper.sqlite''}, calls = []\<rparr>)) = []
   \<and> calls (projr (admin_cell (\<lambda>c fs. fs) (CONFIG_of nmtrc_data)
       \<lparr>files = {''~/data/nmnh_ms_tools/geo/custom.sqlite'',
                 ''~/data/nmnh_ms_tools/geo/geonames.sqlite'',
                 ''~/data/nmnh_ms_tools/geo/admin.sqlite'',
                 ''~/data/nmnh_ms_tools/geo/geohelper.sqlite''}, calls = []\<rparr>))
     = [init_admin_db DefaultPool]
   \<and> calls (projr (geohelper_cell (\<lambda>c fs. fs) (CONFIG_of nmtrc_data)
       \<lparr>files = {''~/data/nmnh_ms_tools/geo/custom.sqlite'',
                 ''~/data/nmnh_ms_tools/geo/geonames.sqlite'',
                 ''~/data/nmnh_ms_tools/geo/admin.sqlite'',
                 ''~/data/nmnh_ms_tools/geo/geohelper.sqlite''}, calls = []\<rparr>)) = []"
  using custom_cell_rebuilds_on_every_run
    [OF nmtrc_paths(1) nmtrc_paths(2) nmtrc_paths(3) nmtrc_paths(4),
     of "\<lambda>c fs. fs"
        "[''data/sources/custom/aapg-provinces.csv'', ''data/sources/custom/gvp-volcanoes.csv'']"
        "\<lparr>files = {''~/data/nmnh_ms_tools/geo/custom.sqlite'',
                 ''~/data/nmnh_ms_tools/geo/geonames.sqlite'',
                 ''~/data/nmnh_ms_tools/geo/admin.sqlite'',
                 ''~/data/nmnh_ms_tools/geo/geohelper.sqlite''}, calls = []\<rparr>"]
  by (simp add: run_calls_def run_call_def)

text \<open>
  C10. The \<open>data\<close> mapping of the first document of \<open>src/unnamed/part_002\<close> writes the key
  \<open>natural_earth\<close> twice, the loaded dict keeps the later value
  \<open>databases/thesaurus.yml\<close>, and no line has the key \<open>geohelper\<close>. With that
  configuration the helper cell raises \<open>KeyError\<close>, which its handler for
  \<open>FileNotFoundError\<close> does not catch, whatever files exist; the run of the notebook stops
  there with that error, before the custom cell.
\<close>

theorem part_002_doc1_geohelper_KeyError:
  "length (filter (\<lambda>kv. fst kv = ''natural_earth'') part_002_doc1_data) = 2
   \<and> yaml_load part_002_doc1_data ''natural_earth'' = Some ''databases/thesaurus.yml''
   \<and> ''geohelper'' \<notin> fst ` set part_002_doc1_data
   \<and> geohelper_cell eff (CONFIG_of part_002_doc1_data) w = Inl (KeyError ''geohelper'')
   \<and> refresh_data eff csvs (CONFIG_of part_002_doc1_data) w = Inl (KeyError ''geohelper'')"
proof -
  have dup: "length (filter (\<lambda>kv. fst kv = ''natural_earth'') part_002_doc1_data) = 2"
    by (simp add: part_002_doc1_data_def)
  have last: "yaml_load part_002_doc1_data ''natural_earth'' = Some ''databases/thesaurus.yml''"
    by (simp add: part_002_doc1_data_def yaml_load_def)
  have none: "''geohelper'' \<notin> fst ` set part_002_doc1_data"
    by (simp add: part_002_doc1_data_def)
  have cell: "geohelper_cell eff (CONFIG_of part_002_doc1_data) v = Inl (KeyError ''geohelper'')"
    for v
    by (rule geohelper_cell_KeyError) (rule part_002_doc1_paths(3))
  have run: "refresh_data eff csvs (CONFIG_of part_002_doc1_data) w = Inl (KeyError ''geohelper'')"
    by (simp add: refresh_data_def geonames_cell_found [OF part_002_doc1_paths(1)]
        admin_cell_found [OF part_002_doc1_paths(2)] cell)
  from dup last none cell run show ?thesis by blast
qed

theorem part_002_doc1_geohelper_KeyError_witness:
  "geohelper_cell (\<lambda>c fs. fs) (CONFIG_of part_002_doc1_data)
       \<lparr>files = {''databases/geohelper.sqlite''}, calls = []\<rparr> = Inl (KeyError ''geohelper'')
   \<and> refresh_data (\<lambda>c fs. fs) [] (CONFIG_of part_002_doc1_data)
       \<lparr>files = {''databases/geohelper.sqlite''}, calls = []\<rparr> = Inl (KeyError ''geohelper'')"
  using part_002_doc1_geohelper_KeyError
    [of "\<lambda>c fs. fs" "\<lparr>files = {''databases/geohelper.sqlite''}, calls = []\<rparr>" "[]"]
  by simp

section \<open>Properties of the resolution engine\<close>

subsection \<open>The first matching pipe wins\<close>

lemma dispatch_tried:
  "tried (dispatch attempt ps r) =
     (case find (\<lambda>p. is_Match (attempt p r)) ps of
        None \<Rightarrow> ps
      | Some p \<Rightarrow> takeWhile (\<lambda>q. \<not> is_Match (attempt q r)) ps @ [p])"
proof (induction ps)
  case Nil
  then show ?case by simp
next
  case (Cons p ps)
  then show ?case
    by (cases "attempt p r") (auto simp: Let_def split: option.splits)
qed

lemma dispatch_matched:
  "matched (dispatch attempt ps r) =
     (case find (\<lambda>p. is_Match (attempt p r)) ps of
        None \<Rightarrow> None
      | Some p \<Rightarrow> Some (p, the_match (attempt p r)))"
proof (induction ps)
  case Nil
  then show ?case by simp
next
  case (Cons p ps)
  then show ?case
    by (cases "attempt p r") (auto simp: Let_def split: option.splits)
qed

lemma dispatch_logged:
  "logged (dispatch attempt ps r) =
     filter (\<lambda>p. attempt p r = HardFailure) (takeWhile (\<lambda>q. \<not> is_Match (attempt q r)) ps)"
proof (induction ps)
  case Nil
  then show ?case by simp
next
  case (Cons p ps)
  then show ?case
    by (cases "attempt p r") (auto simp: Let_def split: option.splits)
qed

text \<open>
  C1. For every chain of pipes, every record and whatever the pipes answer: the pipes
  tried are those before the first pipe of the chain whose attempt matches, in the order
  of the chain, and then that pipe; no pipe after it is tried; the MatchResult is that
  pipe's answer and cites that pipe; with no matching pipe the whole chain is tried and
  there is no MatchResult. The chain of the georeferencer the notebook constructs is
  Manual, PLSS, Between, Border, Direction, Custom, GeoNames.
\<close>

theorem first_matching_pipe_wins:
  "tried (dispatch attempt ps r) =
     (case find (\<lambda>p. is_Match (attempt p r)) ps of
        None \<Rightarrow> ps
      | Some p \<Rightarrow> takeWhile (\<lambda>q. \<not> is_Match (attempt q r)) ps @ [p])
   \<and> matched (dispatch attempt ps r) =
     (case find (\<lambda>p. is_Match (attempt p r)) ps of
        None \<Rightarrow> None
      | Some p \<Rightarrow> Some (p, the_match (attempt p r)))
   \<and> georeference_one attempt (make_geo sites :: ('r, 's) Georeferencer) r =
     dispatch attempt
       [MatchManual, MatchPLSS, MatchBetween, MatchBorder, MatchDirection, MatchCustom,
        MatchGeoNames] r"
  by (simp add: dispatch_tried dispatch_matched georeference_one_def make_geo_def pipes_def)

theorem first_matching_pipe_wins_witness:
  "georeference_one example_attempt
     (make_geo [''5 km N of Springfield''] :: (string, string option) Georeferencer)
     ''5 km N of Springfield'' =
     \<lparr>tried = [MatchManual, MatchPLSS, MatchBetween, MatchBorder, MatchDirection],
      logged = [MatchPLSS],
      matched = Some (MatchDirection, ''5 km N of Springfield (GeoNames 100)'')\<rparr>"
  using first_matching_pipe_wins
    [where attempt = example_attempt and ps = pipes and r = "''5 km N of Springfield''"
       and sites = "[''5 km N of Springfield'']" and ?'s = "string option"]
  by (simp add: example_attempt_def Let_def)

subsection \<open>Narrowing is monotonic\<close>





















end
